theory Spec2Isabelle
  imports Main "HOL-Library.Sublist"
begin

section \<open>Python values and exceptions\<close>

text \<open>
  The downstream payload is what \<^verbatim>\<open>response.json()\<close> returns: \<^verbatim>\<open>None\<close>, a bool, an
  int (unbounded), a float, a str, a list or a dict with string keys.

  \<^item> A Python \<^verbatim>\<open>str\<close> is modelled as a \<open>string\<close> whose characters are the code points
    0..255, one \<open>char\<close> per code point.
  \<^item> A Python \<^verbatim>\<open>float\<close> is represented by its \<^verbatim>\<open>repr\<close> (\<^verbatim>\<open>1.5\<close>, \<^verbatim>\<open>0.0\<close>, \<^verbatim>\<open>-0.0\<close>,
    \<^verbatim>\<open>1e+100\<close>, \<^verbatim>\<open>nan\<close>, \<^verbatim>\<open>inf\<close>), which determines the float; the program does no
    arithmetic on it, it only tests it for zero and prints it.
  \<^item> A \<^verbatim>\<open>dict\<close> is the list of its items in insertion order (keys distinct); a lookup
    is \<open>map_of\<close>.
\<close>

datatype json =
    JNull
  | JBool bool
  | JInt int
  | JFloat string
  | JStr string
  | JList "json list"
  | JObj "(string \<times> json) list"

datatype exc_class =
    AttributeError
  | TypeError
  | IndexError
  | TimeoutError
  | CancelledError
  | OtherException string

record exc =
  cls :: exc_class
  msg :: string

type_synonym 'a result = "exc + 'a"

definition raise :: "exc_class \<Rightarrow> string \<Rightarrow> 'a result" where
  "raise c m = Inl \<lparr>cls = c, msg = m\<rparr>"

definition bind :: "'a result \<Rightarrow> ('a \<Rightarrow> 'b result) \<Rightarrow> 'b result" where
  "bind r f = (case r of Inl e \<Rightarrow> Inl e | Inr v \<Rightarrow> f v)"

text \<open>\<^verbatim>\<open>bool(v)\<close>, the test behind \<^verbatim>\<open>if\<close>, \<^verbatim>\<open>not\<close> and \<^verbatim>\<open>or\<close>.\<close>

fun truthy :: "json \<Rightarrow> bool" where
  "truthy JNull = False"
| "truthy (JBool b) = b"
| "truthy (JInt i) = (i \<noteq> 0)"
| "truthy (JFloat r) = (r \<noteq> ''0.0'' \<and> r \<noteq> ''-0.0'')"
| "truthy (JStr s) = (s \<noteq> [])"
| "truthy (JList xs) = (xs \<noteq> [])"
| "truthy (JObj kvs) = (kvs \<noteq> [])"

text \<open>\<^verbatim>\<open>a or b\<close>: \<^verbatim>\<open>a\<close> when it is truthy, else \<^verbatim>\<open>b\<close>.\<close>

definition py_or :: "json \<Rightarrow> json \<Rightarrow> json" where
  "py_or a b = (if truthy a then a else b)"

text \<open>\<^verbatim>\<open>d.get(k, default)\<close>; \<^verbatim>\<open>d.get(k)\<close> is \<open>dict_get d k JNull\<close>.\<close>

definition dict_get :: "(string \<times> json) list \<Rightarrow> string \<Rightarrow> json \<Rightarrow> json" where
  "dict_get d k dflt = (case map_of d k of Some v \<Rightarrow> v | None \<Rightarrow> dflt)"

text \<open>\<^verbatim>\<open>type(v).__name__\<close>, as it appears in the interpreter's error messages.\<close>

fun type_name :: "json \<Rightarrow> string" where
  "type_name JNull = ''NoneType''"
| "type_name (JBool b) = ''bool''"
| "type_name (JInt i) = ''int''"
| "type_name (JFloat r) = ''float''"
| "type_name (JStr s) = ''str''"
| "type_name (JList xs) = ''list''"
| "type_name (JObj kvs) = ''dict''"

definition quoted :: "string \<Rightarrow> string" where
  "quoted s = [CHR 0x27] @ s @ [CHR 0x27]"

definition no_attribute :: "json \<Rightarrow> string \<Rightarrow> 'a result" where
  "no_attribute v a =
     raise AttributeError (quoted (type_name v) @ '' object has no attribute '' @ quoted a)"

definition not_iterable :: "json \<Rightarrow> 'a result" where
  "not_iterable v = raise TypeError (quoted (type_name v) @ '' object is not iterable'')"

subsection \<open>\<^verbatim>\<open>str\<close> and \<^verbatim>\<open>repr\<close>\<close>

fun digit_char :: "nat \<Rightarrow> char" where
  "digit_char n = (''0123456789abcdef'') ! (n mod 16)"

fun nat_str :: "nat \<Rightarrow> string" where
  "nat_str n = (if n < 10 then [digit_char n] else nat_str (n div 10) @ [digit_char (n mod 10)])"

declare nat_str.simps [simp del]

definition int_str :: "int \<Rightarrow> string" where
  "int_str i = (if i < 0 then ''-'' @ nat_str (nat (- i)) else nat_str (nat i))"

definition hex2 :: "nat \<Rightarrow> string" where
  "hex2 n = [digit_char (n div 16), digit_char n]"

text \<open>
  \<^verbatim>\<open>str.isprintable\<close> on one code point below 256: the controls, DEL, the C1 controls,
  the no-break space and the soft hyphen are not printable.
\<close>

definition printable :: "char \<Rightarrow> bool" where
  "printable c = (let n = (of_char c :: nat) in
     32 \<le> n \<and> n \<noteq> 127 \<and> \<not> (128 \<le> n \<and> n \<le> 160) \<and> n \<noteq> 173)"

fun escape_char :: "char \<Rightarrow> char \<Rightarrow> string" where
  "escape_char q c =
     (if c = q \<or> c = CHR 0x5C then [CHR 0x5C, c]
      else if c = CHR 0x09 then [CHR 0x5C, CHR ''t'']
      else if c = CHR 0x0A then [CHR 0x5C, CHR ''n'']
      else if c = CHR 0x0D then [CHR 0x5C, CHR ''r'']
      else if printable c then [c]
      else [CHR 0x5C, CHR ''x''] @ hex2 (of_char c))"

text \<open>
  \<^verbatim>\<open>repr\<close> of a str: single quotes, unless the text has a single quote and no double
  quote.
\<close>

definition repr_str :: "string \<Rightarrow> string" where
  "repr_str s =
     (let q = (if CHR 0x27 \<in> set s \<and> CHR 0x22 \<notin> set s then CHR 0x22 else CHR 0x27)
      in [q] @ concat (map (escape_char q) s) @ [q])"

text \<open>\<^verbatim>\<open>sep.join(parts)\<close>.\<close>

fun str_join :: "string \<Rightarrow> string list \<Rightarrow> string" where
  "str_join sep [] = []"
| "str_join sep [x] = x"
| "str_join sep (x # y # ys) = x @ sep @ str_join sep (y # ys)"

fun py_repr :: "json \<Rightarrow> string"
  and repr_elems :: "json list \<Rightarrow> string list"
  and repr_items :: "(string \<times> json) list \<Rightarrow> string list"
where
  "py_repr JNull = ''None''"
| "py_repr (JBool b) = (if b then ''True'' else ''False'')"
| "py_repr (JInt i) = int_str i"
| "py_repr (JFloat r) = r"
| "py_repr (JStr s) = repr_str s"
| "py_repr (JList xs) = ''['' @ str_join '', '' (repr_elems xs) @ '']''"
| "py_repr (JObj kvs) = ''{'' @ str_join '', '' (repr_items kvs) @ ''}''"
| "repr_elems [] = []"
| "repr_elems (x # xs) = py_repr x # repr_elems xs"
| "repr_items [] = []"
| "repr_items ((k, v) # kvs) = (repr_str k @ '': '' @ py_repr v) # repr_items kvs"

text \<open>\<^verbatim>\<open>str(v)\<close>, which is also what an f-string field \<^verbatim>\<open>{v}\<close> inserts.\<close>

fun py_str :: "json \<Rightarrow> string" where
  "py_str (JStr s) = s"
| "py_str v = py_repr v"

text \<open>
  \<^verbatim>\<open>str.isspace\<close> on one code point below 256, and \<^verbatim>\<open>s.strip()\<close>, which drops the
  whitespace at both ends.
\<close>

definition isspace :: "char \<Rightarrow> bool" where
  "isspace c = (let n = (of_char c :: nat) in
     (9 \<le> n \<and> n \<le> 13) \<or> (28 \<le> n \<and> n \<le> 32) \<or> n = 133 \<or> n = 160)"

definition strip :: "string \<Rightarrow> string" where
  "strip s = rev (dropWhile isspace (rev (dropWhile isspace s)))"

text \<open>\<^verbatim>\<open>v.strip()\<close> on any value: only a str has the method.\<close>

fun strip_method :: "json \<Rightarrow> string result" where
  "strip_method (JStr s) = Inr (strip s)"
| "strip_method v = no_attribute v ''strip''"

text \<open>\<^verbatim>\<open>xs[0]\<close> on a list.\<close>

fun first_item :: "json list \<Rightarrow> json result" where
  "first_item [] = raise IndexError ''list index out of range''"
| "first_item (x # xs) = Inr x"

text \<open>
  \<^verbatim>\<open>for c in v\<close>: a list gives its elements, a str its characters, a dict its keys;
  nothing else can be iterated.
\<close>

fun py_iter :: "json \<Rightarrow> json list result" where
  "py_iter (JList xs) = Inr xs"
| "py_iter (JStr s) = Inr (map (\<lambda>c. JStr [c]) s)"
| "py_iter (JObj kvs) = Inr (map (\<lambda>kv. JStr (fst kv)) kvs)"
| "py_iter v = not_iterable v"

section \<open>The response normalizer (\<^verbatim>\<open>extract_text\<close>, tax.py)\<close>

text \<open>
  \<^verbatim>\<open>
  answer = (data.get("answer") or data.get("response") or data.get("output")
            or data.get("cleanedResponse") or "")
  \<close>
\<close>

definition answer_of :: "(string \<times> json) list \<Rightarrow> json" where
  "answer_of d =
     py_or (dict_get d ''answer'' JNull)
       (py_or (dict_get d ''response'' JNull)
         (py_or (dict_get d ''output'' JNull)
           (py_or (dict_get d ''cleanedResponse'' JNull) (JStr ''''))))"

text \<open>
  \<^verbatim>\<open>f"- {c.get('source')} ({c.get('reference', c.get('section', ''))})"\<close>:
  \<^verbatim>\<open>c.get\<close> exists only when \<^verbatim>\<open>c\<close> is a dict.
\<close>

fun format_citation :: "json \<Rightarrow> string result" where
  "format_citation (JObj c) =
     Inr (''- '' @ py_str (dict_get c ''source'' JNull) @ '' (''
          @ py_str (dict_get c ''reference'' (dict_get c ''section'' (JStr ''''))) @ '')'')"
| "format_citation v = no_attribute v ''get''"

text \<open>The generator inside \<^verbatim>\<open>"\n".join(...)\<close>: the first failing element ends it.\<close>

fun format_sources :: "json list \<Rightarrow> string list result" where
  "format_sources [] = Inr []"
| "format_sources (c # cs) =
     bind (format_citation c) (\<lambda>l. bind (format_sources cs) (\<lambda>ls. Inr (l # ls)))"

definition extract_text :: "json \<Rightarrow> string result" where
  "extract_text data0 =
     (if \<not> truthy data0 then Inr '' No response received.\<newline>\<newline> Sources: None''
      else
        bind (case data0 of JList xs \<Rightarrow> first_item xs | _ \<Rightarrow> Inr data0) (\<lambda>data.
          case data of
            JObj d \<Rightarrow>
              (let answer = answer_of d;
                   citations = dict_get d ''citations'' (JList [])
               in if \<not> truthy citations then
                    Inr (py_str (py_or answer (JStr ''Response rejected.'')) @ ''\<newline>\<newline>'')
                  else
                    bind (py_iter citations) (\<lambda>cs.
                    bind (format_sources cs) (\<lambda>formatted_sources.
                    bind (strip_method answer) (\<lambda>stripped.
                      Inr (stripped @ ''\<newline>\<newline> Sources:\<newline>''
                           @ str_join ''\<newline>'' formatted_sources)))))
          | _ \<Rightarrow> Inr (py_str data @ ''\<newline>\<newline> Sources: None'')))"

section \<open>The prompt builder (\<^verbatim>\<open>enforce_citation_prompt\<close>, tax.py)\<close>

definition enforce_citation_prompt :: "string \<Rightarrow> string" where
  \<open>enforce_citation_prompt user_message =
     ''\<newline>You are a regulated tax consultant.\<newline>\<newline>''
     @ ''MANDATORY RULES (NON-NEGOTIABLE):\<newline>''
     @ ''- Every response MUST include citations\<newline>''
     @ ''- Citations MUST reference real tax laws, regulations, or official guidance\<newline>''
     @ ''- Return ONLY valid JSON in the format below\<newline>\<newline>''
     @ ''FORMAT:\<newline>''
     @ ''{\<newline>''
     @ ''  "answer": "Clear and professional response",\<newline>''
     @ ''  "citations": [\<newline>''
     @ ''    {\<newline>''
     @ ''      "source": "Document name",\<newline>''
     @ ''      "section": "Section or clause",\<newline>''
     @ ''      "reference": "Exact legal citation"\<newline>''
     @ ''    }\<newline>''
     @ ''  ]\<newline>''
     @ ''}\<newline>\<newline>''
     @ ''If citations cannot be provided, respond with:\<newline>''
     @ ''{\<newline>''
     @ ''  "answer": "I cannot answer this question with certainty.",\<newline>''
     @ ''  "citations": []\<newline>''
     @ ''}\<newline>\<newline>''
     @ ''User question:\<newline>''
     @ user_message @ ''\<newline>''\<close>

section \<open>The workflow client (\<^verbatim>\<open>call_n8n_chain\<close>, tax.py)\<close>

text \<open>
  The POST that the client issues, \<^verbatim>\<open>session.post(N8N_WEBHOOK_URL, json={"chatInput": ...},
  timeout=aiohttp.ClientTimeout(total=60))\<close>, and what the network answers. The network is
  the environment: a function from the request to its outcome. Either the request itself
  raises (no connection, or \<^verbatim>\<open>asyncio.TimeoutError\<close> when the 60 seconds run out before the
  response head arrives), or a response arrives, with its status, its \<^verbatim>\<open>Content-Type\<close>
  header when it has one, and the outcome of \<^verbatim>\<open>await response.json()\<close> (which raises on a
  body that is not JSON, and raises \<^verbatim>\<open>asyncio.TimeoutError\<close> when the 60 seconds run out while
  the body is read).
\<close>

record request =
  url :: string
  chatInput :: string

datatype http_outcome =
    PostRaised exc
  | Responded int "string option" "json result"

type_synonym network = "request \<Rightarrow> http_outcome"

definition timeout_error :: exc where
  "timeout_error = \<lparr>cls = TimeoutError, msg = []\<rparr>"

text \<open>
  The classes that the two \<^verbatim>\<open>except\<close> clauses name. \<^verbatim>\<open>Exception\<close> is the base of every
  exception but the ones that derive from \<^verbatim>\<open>BaseException\<close> alone
  (\<^verbatim>\<open>asyncio.CancelledError\<close> here). \<^verbatim>\<open>aiohttp.ClientTimeout\<close> is the class of timeout
  settings, the one the request is given an instance of (\<^verbatim>\<open>ClientTimeout(total=60)\<close>): it
  is not an exception class.
\<close>

datatype py_class = Exception_class | ClientTimeout_class

fun derives_from_BaseException :: "py_class \<Rightarrow> bool" where
  "derives_from_BaseException Exception_class = True"
| "derives_from_BaseException ClientTimeout_class = False"

fun isinstance_exc :: "exc \<Rightarrow> py_class \<Rightarrow> bool" where
  "isinstance_exc e Exception_class = (cls e \<noteq> CancelledError)"
| "isinstance_exc e ClientTimeout_class = False"

text \<open>
  \<^verbatim>\<open>try: body  except C1: h1  except C2 as e: h2\<close>. When the body raises, the clauses are
  tried in order. Matching against a class that does not derive from \<^verbatim>\<open>BaseException\<close>
  raises \<^verbatim>\<open>TypeError\<close> at that moment, and that error leaves the statement: the clauses
  after it are not tried. An exception that no clause matches leaves the statement too.
\<close>

fun try_except :: "'a result \<Rightarrow> (py_class \<times> (exc \<Rightarrow> 'a result)) list \<Rightarrow> 'a result" where
  "try_except (Inr v) hs = Inr v"
| "try_except (Inl e) [] = Inl e"
| "try_except (Inl e) ((c, h) # hs) =
     (if \<not> derives_from_BaseException c then
        raise TypeError ''catching classes that do not inherit from BaseException is not allowed''
      else if isinstance_exc e c then h e
      else try_except (Inl e) hs)"

text \<open>The body of the \<^verbatim>\<open>try\<close>, once the request has its outcome.\<close>

fun read_response :: "http_outcome \<Rightarrow> string result" where
  "read_response (PostRaised e) = Inl e"
| "read_response (Responded status content_type_header body) =
     (if status \<noteq> 200 then Inr ('' n8n returned status '' @ int_str status)
      else
        let content_type = (case content_type_header of Some c \<Rightarrow> c | None \<Rightarrow> [])
        in if \<not> sublist ''application/json'' content_type then
             Inr '' n8n returned invalid content type.''
           else bind body extract_text)"

text \<open>
  \<open>N8N_WEBHOOK_URL\<close> is \<^verbatim>\<open>os.getenv("N8N_WEBHOOK_URL")\<close>: \<open>None\<close> when the variable is not
  set. The last argument is the log of the requests sent so far; the function returns it
  with its own request added when it sends one.
\<close>

definition call_n8n_chain ::
  "string option \<Rightarrow> network \<Rightarrow> string \<Rightarrow> string option \<Rightarrow> request list
     \<Rightarrow> string result \<times> request list" where
  "call_n8n_chain N8N_WEBHOOK_URL net user_message document_context sent =
     (if N8N_WEBHOOK_URL = None \<or> N8N_WEBHOOK_URL = Some [] then
        (Inr '' N8N_WEBHOOK_URL not configured.'', sent)
      else
        let enforced_message = enforce_citation_prompt user_message;
            enforced_message =
              (if document_context \<noteq> None \<and> document_context \<noteq> Some [] then
                 ''DOCUMENT CONTEXT (FOR CITATION ONLY):\<newline>''
                 @ the document_context @ ''\<newline>\<newline>'' @ enforced_message
               else enforced_message);
            req = \<lparr>url = the N8N_WEBHOOK_URL, chatInput = enforced_message\<rparr>
        in (try_except (read_response (net req))
              [(ClientTimeout_class, \<lambda>e. Inr '' Request to n8n timed out.''),
               (Exception_class, \<lambda>e. Inr ('' Unexpected error: '' @ msg e))],
            sent @ [req]))"

section \<open>The document reader (\<^verbatim>\<open>read_documents\<close>, tax.py)\<close>

text \<open>
  The files are the environment: what \<^verbatim>\<open>fitz.open(path)\<close> gives as the texts of its pages
  (\<^verbatim>\<open>page.get_text()\<close>, in page order), what \<^verbatim>\<open>Document(path)\<close> gives as the texts of its
  paragraphs, and what reading the file at \<^verbatim>\<open>path\<close> as UTF-8 text gives. Each of the three
  can raise (a missing or damaged file); the function has no handler.
\<close>

record document =
  name :: string
  path :: string

record files =
  pdf_pages :: "string \<Rightarrow> string list result"
  docx_paragraphs :: "string \<Rightarrow> string list result"
  txt_read :: "string \<Rightarrow> string result"

fun read_documents_from :: "files \<Rightarrow> string \<Rightarrow> document list \<Rightarrow> string result" where
  "read_documents_from fs text [] = Inr text"
| "read_documents_from fs text (d # ds) =
     (let text = text @ ''\<newline>\<newline>FILE: '' @ name d @ ''\<newline>''
      in if suffix ''.pdf'' (path d) then
           bind (pdf_pages fs (path d)) (\<lambda>pages. read_documents_from fs (text @ concat pages) ds)
         else if suffix ''.docx'' (path d) then
           bind (docx_paragraphs fs (path d))
             (\<lambda>paragraphs. read_documents_from fs (text @ str_join ''\<newline>'' paragraphs) ds)
         else if suffix ''.txt'' (path d) then
           bind (txt_read fs (path d)) (\<lambda>t. read_documents_from fs (text @ t) ds)
         else read_documents_from fs text ds)"

definition read_documents :: "files \<Rightarrow> document list \<Rightarrow> string result" where
  "read_documents fs documents = read_documents_from fs [] documents"

section \<open>The session history (\<^verbatim>\<open>on_chat_start\<close>, \<^verbatim>\<open>on_chat_resume\<close>, \<^verbatim>\<open>on_message\<close>)\<close>

text \<open>
  A turn is the dict \<^verbatim>\<open>{"role": r, "content": c}\<close>. The session store
  \<^verbatim>\<open>cl.user_session\<close> holds the history under the key \<^verbatim>\<open>"chat_history"\<close> (\<open>None\<close> while the
  key is not set) and the authenticated user under \<^verbatim>\<open>"user"\<close>. A persisted thread is a
  dict that may have a \<^verbatim>\<open>"steps"\<close> list; a step is a dict of strings, read at \<^verbatim>\<open>"type"\<close>
  and \<^verbatim>\<open>"output"\<close>.
\<close>

type_synonym chat_turn = "(string \<times> string) list"

definition turn :: "string \<Rightarrow> string \<Rightarrow> chat_turn" where
  "turn r c = [(''role'', r), (''content'', c)]"

type_synonym step = "string \<rightharpoonup> string"

record thread =
  steps :: "step list option"

record session =
  chat_history :: "chat_turn list option"
  user :: "string option"

text \<open>\<^verbatim>\<open>cl.user_session.get("chat_history", [])\<close>.\<close>

definition get_chat_history :: "session \<Rightarrow> chat_turn list" where
  "get_chat_history s = (case chat_history s of Some h \<Rightarrow> h | None \<Rightarrow> [])"

text \<open>\<^verbatim>\<open>step.get(k, default)\<close>.\<close>

definition step_get :: "step \<Rightarrow> string \<Rightarrow> string \<Rightarrow> string" where
  "step_get st k dflt = (case st k of Some v \<Rightarrow> v | None \<Rightarrow> dflt)"

definition on_chat_start :: "session \<Rightarrow> session" where
  "on_chat_start s = s\<lparr>chat_history := Some []\<rparr>"

text \<open>The loop of \<^verbatim>\<open>on_chat_resume\<close> in tax.py; \<open>history\<close> is the list built so far.\<close>

fun restore_history :: "chat_turn list \<Rightarrow> step list \<Rightarrow> chat_turn list" where
  "restore_history history [] = history"
| "restore_history history (st # rest) =
     (if st ''type'' = Some ''user_message'' then
        restore_history (history @ [turn ''user'' (step_get st ''output'' [])]) rest
      else if st ''type'' = Some ''assistant_message'' then
        restore_history (history @ [turn ''assistant'' (step_get st ''output'' [])]) rest
      else restore_history history rest)"

definition on_chat_resume :: "session \<Rightarrow> thread \<Rightarrow> session" where
  "on_chat_resume s thr =
     s\<lparr>chat_history :=
         Some (restore_history [] (case steps thr of Some xs \<Rightarrow> xs | None \<Rightarrow> []))\<rparr>"

text \<open>
  The same handler in app.py, which reads \<^verbatim>\<open>msg_type\<close> and \<^verbatim>\<open>output\<close> before it
  branches.
\<close>

fun restore_history_app :: "chat_turn list \<Rightarrow> step list \<Rightarrow> chat_turn list" where
  "restore_history_app history [] = history"
| "restore_history_app history (st # rest) =
     (let msg_type = st ''type'';
          output = step_get st ''output'' []
      in if msg_type = Some ''user_message'' then
           restore_history_app (history @ [turn ''user'' output]) rest
         else if msg_type = Some ''assistant_message'' then
           restore_history_app (history @ [turn ''assistant'' output]) rest
         else restore_history_app history rest)"

definition on_chat_resume_app :: "session \<Rightarrow> thread \<Rightarrow> session" where
  "on_chat_resume_app s thr =
     s\<lparr>chat_history :=
         Some (restore_history_app [] (case steps thr of Some xs \<Rightarrow> xs | None \<Rightarrow> []))\<rparr>"

text \<open>
  The message handler of tax.py. The incoming message has its text and its attached
  elements, of which the handler keeps the truthy ones (\<open>None\<close> stands for a falsy
  entry). The calls that only draw on the screen (\<^verbatim>\<open>cl.Step\<close>, \<^verbatim>\<open>msg.send()\<close>,
  \<^verbatim>\<open>msg.update()\<close>) are left out. The handler gives back what it raised, if anything,
  the session store and the log of requests sent.
\<close>

record message =
  content :: string
  elements :: "document option list"

definition on_message ::
  "string option \<Rightarrow> network \<Rightarrow> files \<Rightarrow> message \<Rightarrow> session \<Rightarrow> request list
     \<Rightarrow> exc option \<times> session \<times> request list" where
  "on_message N8N_WEBHOOK_URL net fs m s sent =
     (let history = get_chat_history s;
          fls = List.map_filter id (elements m)
      in case (if fls \<noteq> [] then bind (read_documents fs fls) (\<lambda>t. Inr (Some t)) else Inr None) of
           Inl e \<Rightarrow> (Some e, s, sent)
         | Inr document_context \<Rightarrow>
             (case call_n8n_chain N8N_WEBHOOK_URL net (content m) document_context sent of
                (Inl e, sent') \<Rightarrow> (Some e, s, sent')
              | (Inr reply, sent') \<Rightarrow>
                  (None,
                   s\<lparr>chat_history :=
                       Some (history @ [turn ''user'' (content m), turn ''assistant'' reply])\<rparr>,
                   sent')))"

section \<open>What the specification says, in its own terms\<close>

text \<open>
  The answer of the normalizer: the fields are tried in the order given, the first one
  that is present with a non-empty value wins, and the default is the empty string. A
  value is non-empty when Python takes it as true.
\<close>

fun first_nonempty :: "(string \<times> json) list \<Rightarrow> string list \<Rightarrow> json" where
  "first_nonempty d [] = JStr []"
| "first_nonempty d (k # ks) =
     (case map_of d k of
        Some v \<Rightarrow> if truthy v then v else first_nonempty d ks
      | None \<Rightarrow> first_nonempty d ks)"

text \<open>
  One line of the sources block, \<^verbatim>\<open>- <source> (<reference or section>)\<close>: the reference
  when the citation has one, else the section, else nothing.
\<close>

definition reference_or_section :: "(string \<times> json) list \<Rightarrow> json" where
  "reference_or_section c =
     (case map_of c ''reference'' of
        Some r \<Rightarrow> r
      | None \<Rightarrow> (case map_of c ''section'' of Some sec \<Rightarrow> sec | None \<Rightarrow> JStr []))"

definition citation_line :: "(string \<times> json) list \<Rightarrow> string" where
  "citation_line c =
     ''- '' @ py_str (dict_get c ''source'' JNull) @ '' ('' @ py_str (reference_or_section c) @ '')''"

text \<open>
  The turn that a persisted step stands for: a user turn for \<^verbatim>\<open>user_message\<close>, an
  assistant turn for \<^verbatim>\<open>assistant_message\<close>, with the step's output (the empty string when
  it has none), and no turn for any other type.
\<close>

definition turn_of_step :: "step \<Rightarrow> chat_turn option" where
  "turn_of_step st =
     (if st ''type'' = Some ''user_message'' then Some (turn ''user'' (step_get st ''output'' []))
      else if st ''type'' = Some ''assistant_message'' then
        Some (turn ''assistant'' (step_get st ''output'' []))
      else None)"

text \<open>
  A history made of exchanges: a user turn, then an assistant turn, and so on, with no
  turn left alone.
\<close>

fun alternates :: "chat_turn list \<Rightarrow> bool" where
  "alternates [] = True"
| "alternates [u] = False"
| "alternates (u # a # rest) =
     (map_of u ''role'' = Some ''user'' \<and> map_of a ''role'' = Some ''assistant'' \<and> alternates rest)"




section \<open>Properties of the response normalizer\<close>

lemma bind_Inr [simp]: "bind (Inr v) f = f v"
  by (simp add: bind_def)

lemma bind_Inl [simp]: "bind (Inl e) f = Inl e"
  by (simp add: bind_def)

lemma bind_eq_Inl: "bind r f = Inl e \<longleftrightarrow> r = Inl e \<or> (\<exists>v. r = Inr v \<and> f v = Inl e)"
  by (cases r) simp_all

lemma extract_text_object:
  "d \<noteq> [] \<Longrightarrow> extract_text (JObj d) =
     (if \<not> truthy (dict_get d ''citations'' (JList [])) then
        Inr (py_str (py_or (answer_of d) (JStr ''Response rejected.'')) @ ''\<newline>\<newline>'')
      else
        bind (py_iter (dict_get d ''citations'' (JList []))) (\<lambda>cs.
        bind (format_sources cs) (\<lambda>formatted_sources.
        bind (strip_method (answer_of d)) (\<lambda>stripped.
          Inr (stripped @ ''\<newline>\<newline> Sources:\<newline>''
               @ str_join ''\<newline>'' formatted_sources)))))"
  by (simp add: extract_text_def Let_def)

subsection \<open>The exceptions that the normalizer can raise\<close>

lemma format_citation_error: "format_citation c = Inl e \<Longrightarrow> cls e = AttributeError"
  by (cases c) (auto simp: no_attribute_def raise_def)

lemma format_sources_error: "format_sources cs = Inl e \<Longrightarrow> cls e = AttributeError"
proof (induction cs)
  case Nil
  then show ?case by simp
next
  case (Cons c cs)
  then show ?case
    by (auto simp: bind_eq_Inl dest: format_citation_error)
qed

lemma py_iter_error: "py_iter v = Inl e \<Longrightarrow> cls e = TypeError"
  by (cases v) (auto simp: not_iterable_def raise_def)

lemma strip_method_error: "strip_method v = Inl e \<Longrightarrow> cls e = AttributeError"
  by (cases v) (auto simp: no_attribute_def raise_def)

lemma extract_text_object_error:
  assumes "extract_text (JObj d) = Inl e"
  shows "cls e = AttributeError \<or> cls e = TypeError"
proof (cases "d = []")
  case True
  with assms show ?thesis by (simp add: extract_text_def)
next
  case False
  with assms show ?thesis
    by (auto simp: extract_text_object bind_eq_Inl split: if_splits
             dest: py_iter_error format_sources_error strip_method_error)
qed

lemma extract_text_error:
  assumes "extract_text v = Inl e"
  shows "cls e = AttributeError \<or> cls e = TypeError"
proof (cases v)
  case (JObj d)
  with assms show ?thesis by (simp add: extract_text_object_error)
next
  case (JList xs)
  show ?thesis
  proof (cases xs)
    case Nil
    with assms JList show ?thesis by (simp add: extract_text_def)
  next
    case (Cons x rest)
    show ?thesis
    proof (cases x)
      case (JObj d)
      have "extract_text (JList (JObj d # rest)) =
              (if d = [] then Inr ''Response rejected.\<newline>\<newline>'' else extract_text (JObj d))"
        by (simp add: extract_text_def Let_def dict_get_def answer_of_def py_or_def)
      with assms JList Cons JObj show ?thesis
        by (auto split: if_splits dest: extract_text_object_error)
    qed (use assms JList Cons in \<open>simp_all add: extract_text_def\<close>)
  qed
qed (use assms in \<open>simp_all add: extract_text_def split: if_splits\<close>)

text \<open>
  Claim C10. On every falsy input (\<^verbatim>\<open>None\<close>, \<^verbatim>\<open>False\<close>, \<^verbatim>\<open>0\<close>, \<^verbatim>\<open>0.0\<close>, the empty string, the
  empty list, the empty dict) \<^verbatim>\<open>extract_text\<close> returns the fixed no-response message, the
  same as for \<^verbatim>\<open>None\<close>; the first element of the list is never asked for when there is
  none, and no input at all makes the function raise \<^verbatim>\<open>IndexError\<close>.
\<close>

theorem extract_text_falsy:
  assumes "\<not> truthy data"
  shows "extract_text data = Inr '' No response received.\<newline>\<newline> Sources: None''
         \<and> extract_text data = extract_text JNull
         \<and> (\<forall>v e. extract_text v = Inl e \<longrightarrow> cls e \<noteq> IndexError)"
proof -
  have "\<forall>v e. extract_text v = Inl e \<longrightarrow> cls e \<noteq> IndexError"
    using extract_text_error by fastforce
  with assms show ?thesis by (simp add: extract_text_def)
qed

theorem extract_text_falsy_witness:
  "\<not> truthy (JList []) \<and> \<not> truthy (JStr []) \<and> \<not> truthy (JInt 0) \<and> \<not> truthy (JBool False)
   \<and> extract_text (JList []) = Inr '' No response received.\<newline>\<newline> Sources: None''
   \<and> extract_text (JStr []) = Inr '' No response received.\<newline>\<newline> Sources: None''
   \<and> extract_text (JInt 0) = Inr '' No response received.\<newline>\<newline> Sources: None''
   \<and> extract_text (JBool False) = Inr '' No response received.\<newline>\<newline> Sources: None''"
  using extract_text_falsy [of "JList []"] extract_text_falsy [of "JStr []"]
    extract_text_falsy [of "JInt 0"] extract_text_falsy [of "JBool False"]
  by simp

subsection \<open>The answer\<close>

lemma first_nonempty_step:
  "first_nonempty d (k # ks) = py_or (dict_get d k JNull) (first_nonempty d ks)"
  by (simp add: py_or_def dict_get_def split: option.split)

text \<open>
  Claim C7. The answer that \<^verbatim>\<open>extract_text\<close> uses for an object is the first value, among
  the fields \<^verbatim>\<open>answer\<close>, \<^verbatim>\<open>response\<close>, \<^verbatim>\<open>output\<close>, \<^verbatim>\<open>cleanedResponse\<close> tried in that order, that
  is present and non-empty (true for Python), and the empty string when there is none. It
  is the text that a non-empty object without citations is rendered with.
\<close>

theorem answer_of_priority:
  "answer_of d = first_nonempty d [''answer'', ''response'', ''output'', ''cleanedResponse'']
   \<and> (d \<noteq> [] \<and> \<not> truthy (dict_get d ''citations'' (JList [])) \<longrightarrow>
        extract_text (JObj d) =
          Inr (py_str (py_or (first_nonempty d [''answer'', ''response'', ''output'', ''cleanedResponse''])
                        (JStr ''Response rejected.'')) @ ''\<newline>\<newline>''))"
proof -
  have eq: "answer_of d = first_nonempty d [''answer'', ''response'', ''output'', ''cleanedResponse'']"
    unfolding answer_of_def first_nonempty_step by simp
  show ?thesis
    using eq by (simp add: extract_text_object)
qed

theorem answer_of_priority_witness:
  "answer_of [(''cleanedResponse'', JStr ''c''), (''output'', JStr ''o''), (''answer'', JStr [])]
     = JStr ''o''
   \<and> extract_text (JObj [(''cleanedResponse'', JStr ''c''), (''output'', JStr ''o''), (''answer'', JStr [])])
     = Inr ''o\<newline>\<newline>''"
  using answer_of_priority
    [of "[(''cleanedResponse'', JStr ''c''), (''output'', JStr ''o''), (''answer'', JStr [])]"]
  by (simp add: dict_get_def py_or_def)

subsection \<open>No citations\<close>

text \<open>
  Against claim C6 as it is worded: the empty object has no \<^verbatim>\<open>citations\<close> field and an
  empty answer, and it is falsy, so it gets the no-response message, which has no
  \<^verbatim>\<open>Response rejected.\<close> in it and ends with a \<^verbatim>\<open>Sources:\<close> line.
\<close>

theorem extract_text_empty_object:
  "map_of ([] :: (string \<times> json) list) ''citations'' = None
   \<and> answer_of [] = JStr []
   \<and> extract_text (JObj []) = Inr '' No response received.\<newline>\<newline> Sources: None''
   \<and> \<not> sublist ''Response rejected.'' '' No response received.\<newline>\<newline> Sources: None''
   \<and> sublist ''Sources:'' '' No response received.\<newline>\<newline> Sources: None''"
  by (simp add: answer_of_def dict_get_def py_or_def extract_text_def sublist_Cons_right)

text \<open>
  Claim C6, amended. For every non-empty object whose \<^verbatim>\<open>citations\<close> field is absent or the
  empty list, \<^verbatim>\<open>extract_text\<close> returns the answer text followed by two newlines and nothing
  else (no sources block), and \<^verbatim>\<open>Response rejected.\<close> followed by two newlines when the
  answer is empty. The object \<^verbatim>\<open>{answer: "A", citations: []}\<close> gives \<^verbatim>\<open>"A\n\n"\<close>.
\<close>

theorem extract_text_no_citations:
  assumes "d \<noteq> []"
    and "map_of d ''citations'' = None \<or> map_of d ''citations'' = Some (JList [])"
  shows "extract_text (JObj d) =
           (if truthy (answer_of d) then Inr (py_str (answer_of d) @ ''\<newline>\<newline>'')
            else Inr ''Response rejected.\<newline>\<newline>'')"
proof -
  from assms(2) have "\<not> truthy (dict_get d ''citations'' (JList []))"
    by (auto simp: dict_get_def)
  with assms(1) show ?thesis
    by (simp add: extract_text_object py_or_def)
qed

theorem extract_text_no_citations_witness:
  "extract_text (JObj [(''answer'', JStr ''A''), (''citations'', JList [])]) = Inr ''A\<newline>\<newline>''
   \<and> extract_text (JObj [(''note'', JStr ''n'')]) = Inr ''Response rejected.\<newline>\<newline>''"
  using extract_text_no_citations [of "[(''answer'', JStr ''A''), (''citations'', JList [])]"]
    extract_text_no_citations [of "[(''note'', JStr ''n'')]"]
  by (simp add: answer_of_def dict_get_def py_or_def)

subsection \<open>Citations\<close>

lemma reference_or_section_get:
  "dict_get c ''reference'' (dict_get c ''section'' (JStr [])) = reference_or_section c"
  by (simp add: dict_get_def reference_or_section_def split: option.split)

lemma format_sources_objects: "format_sources (map JObj cs) = Inr (map citation_line cs)"
  by (induction cs) (simp_all add: citation_line_def reference_or_section_get)

text \<open>
  Against claim C2 as it is worded: the result for the example is not the string of the
  claim, which has no space before \<^verbatim>\<open>Sources:\<close>.
\<close>

theorem extract_text_example_not_as_claimed:
  "extract_text (JObj [(''answer'', JStr ''A''),
       (''citations'', JList [JObj [(''source'', JStr ''S''), (''reference'', JStr ''R'')]])])
   \<noteq> Inr ''A\<newline>\<newline>Sources:\<newline>- S (R)''"
  by (simp add: extract_text_object answer_of_def dict_get_def py_or_def strip_def isspace_def)

text \<open>
  Claim C2, amended. For a non-empty object whose answer is a string and whose
  \<^verbatim>\<open>citations\<close> is a non-empty list of objects, the result is the answer without the
  whitespace at its ends, then \<^verbatim>\<open>"\n\n Sources:\n"\<close> (with a space before \<^verbatim>\<open>Sources:\<close>), then
  one line \<^verbatim>\<open>- <source> (<reference or section>)\<close> per citation, in order, joined with
  newlines; the reference is taken when the citation has one, the section otherwise.
  The example of the claim gives \<^verbatim>\<open>"A\n\n Sources:\n- S (R)"\<close>.
\<close>

theorem extract_text_sources_block:
  assumes "d \<noteq> []"
    and "answer_of d = JStr a"
    and "map_of d ''citations'' = Some (JList (map JObj cs))"
    and "cs \<noteq> []"
  shows "extract_text (JObj d) =
           Inr (strip a @ ''\<newline>\<newline> Sources:\<newline>'' @ str_join ''\<newline>'' (map citation_line cs))"
proof -
  from assms(3) have "dict_get d ''citations'' (JList []) = JList (map JObj cs)"
    by (simp add: dict_get_def)
  with assms(1,2,4) show ?thesis
    by (simp add: extract_text_object format_sources_objects)
qed

theorem extract_text_sources_block_witness:
  "extract_text (JObj [(''answer'', JStr ''A''),
       (''citations'', JList [JObj [(''source'', JStr ''S''), (''reference'', JStr ''R'')]])])
     = Inr ''A\<newline>\<newline> Sources:\<newline>- S (R)''
   \<and> extract_text (JObj [(''answer'', JStr '' A ''),
       (''citations'', JList [JObj [(''source'', JStr ''S''), (''section'', JStr ''4''), (''reference'', JStr ''R'')],
                             JObj [(''source'', JStr ''T''), (''section'', JStr ''5'')]])])
     = Inr ''A\<newline>\<newline> Sources:\<newline>- S (R)\<newline>- T (5)''"
  using extract_text_sources_block
    [of "[(''answer'', JStr ''A''),
          (''citations'', JList [JObj [(''source'', JStr ''S''), (''reference'', JStr ''R'')]])]"
        "''A''" "[[(''source'', JStr ''S''), (''reference'', JStr ''R'')]]"]
    extract_text_sources_block
    [of "[(''answer'', JStr '' A ''),
          (''citations'', JList [JObj [(''source'', JStr ''S''), (''section'', JStr ''4''), (''reference'', JStr ''R'')],
                                JObj [(''source'', JStr ''T''), (''section'', JStr ''5'')]])]"
        "'' A ''"
        "[[(''source'', JStr ''S''), (''section'', JStr ''4''), (''reference'', JStr ''R'')],
          [(''source'', JStr ''T''), (''section'', JStr ''5'')]]"]
  by (simp add: answer_of_def dict_get_def py_or_def strip_def isspace_def citation_line_def
        reference_or_section_def)

subsection \<open>Inputs on which the normalizer raises\<close>

text \<open>
  Claim C1 asks that \<^verbatim>\<open>extract_text\<close> never raises. It does, once the citations are
  truthy: on an answer that is not a string (\<^verbatim>\<open>answer.strip()\<close>, where the branch without
  citations formats the same answer with no method call), and on a citation that is not
  an object (\<^verbatim>\<open>c.get\<close>, where the payload itself is tested with \<^verbatim>\<open>isinstance\<close>).
\<close>

theorem extract_text_raises:
  "extract_text (JObj [(''answer'', JInt 5),
       (''citations'', JList [JObj [(''source'', JStr ''S''), (''reference'', JStr ''R'')]])])
     = raise AttributeError (quoted ''int'' @ '' object has no attribute '' @ quoted ''strip'')
   \<and> extract_text (JObj [(''answer'', JStr ''A''), (''citations'', JList [JStr ''S''])])
     = raise AttributeError (quoted ''str'' @ '' object has no attribute '' @ quoted ''get'')"
  by (simp add: extract_text_object answer_of_def dict_get_def py_or_def no_attribute_def raise_def)

section \<open>Properties of the workflow client\<close>

text \<open>
  Claim C8. When the webhook URL is not configured (the variable is unset, or set to the
  empty string), \<^verbatim>\<open>call_n8n_chain\<close> returns the fixed configuration message whatever the
  message, the document context and the network are, and sends nothing: the log of
  requests is the one it was given.
\<close>

theorem call_n8n_chain_not_configured:
  assumes "N8N_WEBHOOK_URL = None \<or> N8N_WEBHOOK_URL = Some []"
  shows "call_n8n_chain N8N_WEBHOOK_URL net user_message document_context sent =
           (Inr '' N8N_WEBHOOK_URL not configured.'', sent)"
  using assms by (auto simp: call_n8n_chain_def)

theorem call_n8n_chain_not_configured_witness:
  "call_n8n_chain None (\<lambda>req. Responded 200 (Some ''application/json'') (Inr JNull))
     ''What is VAT?'' (Some ''FILE: a.txt'') [] = (Inr '' N8N_WEBHOOK_URL not configured.'', [])"
  using call_n8n_chain_not_configured [of None] by simp

text \<open>
  Claim C3 asks that a request that runs out of its 60 seconds makes \<^verbatim>\<open>call_n8n_chain\<close>
  return \<^verbatim>\<open>" Request to n8n timed out."\<close>. The timeout reaches the \<^verbatim>\<open>try\<close> statement as
  \<^verbatim>\<open>asyncio.TimeoutError\<close>, from the request or from the reading of the body; the first
  clause names \<^verbatim>\<open>aiohttp.ClientTimeout\<close>, which is not an exception class, so the match
  itself raises \<^verbatim>\<open>TypeError\<close> and the function raises instead of returning the message.
\<close>

theorem call_n8n_chain_timeout_raises:
  "fst (call_n8n_chain (Some ''https://n8n.example/webhook'') (\<lambda>req. PostRaised timeout_error)
         user_message document_context sent)
     = raise TypeError ''catching classes that do not inherit from BaseException is not allowed''
   \<and> fst (call_n8n_chain (Some ''https://n8n.example/webhook'')
         (\<lambda>req. Responded 200 (Some ''application/json'') (Inl timeout_error))
         user_message document_context sent)
     = raise TypeError ''catching classes that do not inherit from BaseException is not allowed''
   \<and> fst (call_n8n_chain (Some ''https://n8n.example/webhook'') (\<lambda>req. PostRaised timeout_error)
         user_message document_context sent)
     \<noteq> Inr '' Request to n8n timed out.''"
  by (simp add: call_n8n_chain_def Let_def raise_def sublist_Cons_right)

section \<open>Properties of the session history\<close>

lemma restore_history_acc:
  "restore_history history sts = history @ List.map_filter turn_of_step sts"
  by (induction sts arbitrary: history) (simp_all add: List.map_filter_simps turn_of_step_def)

lemma restore_history_app_acc:
  "restore_history_app history sts = history @ List.map_filter turn_of_step sts"
  by (induction sts arbitrary: history)
     (simp_all add: List.map_filter_simps turn_of_step_def Let_def)

text \<open>
  Claim C5. \<^verbatim>\<open>on_chat_resume\<close> (in tax.py and, with the same result, in app.py) stores
  as the history the turns of the thread's steps, in order: a user turn for each
  \<^verbatim>\<open>user_message\<close> step, an assistant turn for each \<^verbatim>\<open>assistant_message\<close> step, with the
  step's \<^verbatim>\<open>output\<close> as content (the empty string when the step has none), and nothing for
  any other step. The history held before has no part in the result. The three steps of
  the example give the two turns \<^verbatim>\<open>user "hi"\<close>, \<^verbatim>\<open>assistant "hello"\<close>.
\<close>

theorem on_chat_resume_rehydrates:
  "on_chat_resume s thr =
     s\<lparr>chat_history :=
         Some (List.map_filter turn_of_step (case steps thr of Some sts \<Rightarrow> sts | None \<Rightarrow> []))\<rparr>
   \<and> on_chat_resume_app s thr = on_chat_resume s thr
   \<and> on_chat_resume (s\<lparr>chat_history := prior\<rparr>) thr = on_chat_resume s thr
   \<and> get_chat_history (on_chat_resume s
        \<lparr>steps = Some [[''type'' \<mapsto> ''user_message'', ''output'' \<mapsto> ''hi''],
                       [''type'' \<mapsto> ''assistant_message'', ''output'' \<mapsto> ''hello''],
                       [''type'' \<mapsto> ''other'', ''output'' \<mapsto> ''x'']]\<rparr>)
       = [turn ''user'' ''hi'', turn ''assistant'' ''hello'']
   \<and> get_chat_history (on_chat_resume s \<lparr>steps = Some [[''type'' \<mapsto> ''user_message'']]\<rparr>)
       = [turn ''user'' []]"
  by (simp add: on_chat_resume_def on_chat_resume_app_def restore_history_acc
        restore_history_app_acc get_chat_history_def List.map_filter_simps turn_of_step_def
        step_get_def)

lemma alternates_append:
  "alternates h \<Longrightarrow> alternates (h @ [turn ''user'' c, turn ''assistant'' r])"
  by (induction h rule: alternates.induct) (simp_all add: turn_def)

text \<open>
  What the handler does when the reply comes back: once the documents are read and
  \<^verbatim>\<open>call_n8n_chain\<close> has returned a string, error strings included, the history gets the
  user turn and the assistant turn in one update, and a history made of exchanges stays
  one.
\<close>

lemma on_message_reply_recorded:
  assumes "(if List.map_filter id (elements m) \<noteq> []
            then bind (read_documents fs (List.map_filter id (elements m))) (\<lambda>t. Inr (Some t))
            else Inr None) = Inr document_context"
    and "call_n8n_chain N8N_WEBHOOK_URL net (content m) document_context sent = (Inr reply, sent')"
  shows "on_message N8N_WEBHOOK_URL net fs m s sent =
           (None,
            s\<lparr>chat_history :=
                Some (get_chat_history s @ [turn ''user'' (content m), turn ''assistant'' reply])\<rparr>,
            sent')"
  using assms by (simp add: on_message_def Let_def)

lemma on_message_reply_alternates:
  assumes "alternates (get_chat_history s)"
  shows "alternates (get_chat_history
           (s\<lparr>chat_history :=
               Some (get_chat_history s @ [turn ''user'' c, turn ''assistant'' reply])\<rparr>))"
  using assms by (simp add: get_chat_history_def alternates_append)

text \<open>
  Claim C4 asks that every message leaves its pair in the history, the user turn and
  then the assistant turn with the reply, and names the reply that is the timeout
  message. When the request runs out of its 60 seconds, \<^verbatim>\<open>call_n8n_chain\<close> raises
  \<^verbatim>\<open>TypeError\<close> instead of returning that message (the \<^verbatim>\<open>except\<close> clause that names
  \<^verbatim>\<open>aiohttp.ClientTimeout\<close>), the exception leaves \<^verbatim>\<open>on_message\<close> before the
  \<^verbatim>\<open>extend\<close>, and the history holds neither the user turn nor an assistant turn for that
  message: it is the history of before, although the request was sent.
\<close>

theorem on_message_timeout_appends_nothing:
  "on_message (Some ''https://n8n.example/webhook'') (\<lambda>req. PostRaised timeout_error) fs
      \<lparr>content = user_message, elements = []\<rparr> s sent
    = (Some \<lparr>cls = TypeError,
              msg = ''catching classes that do not inherit from BaseException is not allowed''\<rparr>,
       s,
       sent @ [\<lparr>url = ''https://n8n.example/webhook'',
                 chatInput = enforce_citation_prompt user_message\<rparr>])
   \<and> get_chat_history (fst (snd (on_message (Some ''https://n8n.example/webhook'')
        (\<lambda>req. PostRaised timeout_error) fs \<lparr>content = user_message, elements = []\<rparr> s sent)))
     = get_chat_history s
   \<and> get_chat_history (fst (snd (on_message (Some ''https://n8n.example/webhook'')
        (\<lambda>req. PostRaised timeout_error) fs \<lparr>content = user_message, elements = []\<rparr> s sent)))
     \<noteq> get_chat_history s
        @ [turn ''user'' user_message, turn ''assistant'' '' Request to n8n timed out.'']"
  by (simp add: on_message_def call_n8n_chain_def Let_def raise_def List.map_filter_simps)

section \<open>Properties of the document reader\<close>





end
